theory Spec2Isabelle
  imports Complex_Main "HOL-Library.Multiset"
begin

section \<open>Values, errors and rows of the database\<close>

text \<open>
  The development embeds the two handlers of \<^verbatim>\<open>Backend/test_router.py\<close> that make up the
  test session (\<^verbatim>\<open>POST /test\<close>, \<^verbatim>\<open>POST /get_score\<close>), the question lookup
  (\<^verbatim>\<open>GET /test\<close>) and the repository functions of \<^verbatim>\<open>Backend/database/repository.py\<close>
  they call. A Python exception is a value of type \<open>error\<close>; a handler returns its
  response or its exception together with the state it leaves behind.
\<close>

datatype error =
    HTTPException nat string
  | TypeError
  | AttributeError string
  | KeyError string
  | IndexError
  | ValueError
  | External string

text \<open>
  A value as Python compares it with \<^verbatim>\<open>==\<close>: a \<^verbatim>\<open>str\<close> never equals an \<^verbatim>\<open>int\<close>.
\<close>

datatype py_value = PyStr string | PyInt int

text \<open>
  A cell of a JSON answer or of a pandas frame: a number, a string, or the missing
  value \<^verbatim>\<open>NaN\<close>. Numbers are rationals (every finite float is one): the handlers only
  move them around.
\<close>

datatype cell = Num rat | Str string | NaN

text \<open>
  The ORM classes (\<^verbatim>\<open>database/orm.py\<close>) take their fields from the places the handlers
  read and write them. The fields of a Score are prefixed, since \<open>user_id\<close> and \<open>date\<close>
  name fields of Test and Question already.
\<close>

record Question =
  date :: string
  q1 :: string
  q2 :: string
  q3 :: string

record Test =
  user_id :: nat
  path :: string
  q_num :: int
  createddate :: string
  wpm :: cell
  mlr :: cell
  pause :: cell
  grammar :: "(string \<times> (string \<times> cell) list) list"
  mpr :: cell
  coherence :: cell

record Score =
  score_user_id :: nat
  score_date :: string
  score :: string

record User =
  uid :: nat
  streak :: nat
  done_today :: bool

text \<open>
  The state a request runs in: the four tables behind the SQLAlchemy session, in insertion
  order, and the files written under \<^verbatim>\<open>./uploads\<close>.
\<close>

record state =
  questions :: "Question list"
  tests :: "Test list"
  scores :: "Score list"
  users :: "User list"
  uploads :: "string list"

text \<open>The multipart upload: its file name; its bytes matter only to the transcoder.\<close>

record UploadFile =
  filename :: string
  content :: "nat list"

text \<open>The JSON object the inference service answers with, spread into the Test.\<close>

record inference_output =
  out_wpm :: cell
  out_mlr :: cell
  out_pause :: cell
  out_grammar :: "(string \<times> (string \<times> cell) list) list"
  out_mpr :: cell
  out_coherence :: cell

text \<open>
  What a request reads from outside the program: the clock (\<open>today\<close> is
  \<^verbatim>\<open>datetime.today()\<close>, \<open>now\<close> is \<^verbatim>\<open>datetime.now()\<close>, both formatted
  \<^verbatim>\<open>%Y-%m-%d\<close>), the UUID drawn for the file name, the outcome of reading, loading,
  resampling and writing the audio (\<open>None\<close> when all four succeed, the exception's text
  otherwise), the answer of the inference service to a path and a prompt (\<open>Inl\<close> when
  the call raises, times out, or answers what \<^verbatim>\<open>CreateTestRequest\<close> refuses), the
  CatBoost model (loading it and predicting on a feature matrix, \<open>Inl\<close> when either
  raises), and numpy's \<^verbatim>\<open>mean\<close> of an array of class indices: the float64 it answers,
  which is a rational, or \<open>None\<close> for \<^verbatim>\<open>NaN\<close>, the mean of no predictions. The
  float64 mean is taken as numpy gives it, not recomputed: it need not be the exact mean.
\<close>

record env =
  today :: string
  now :: string
  uuid4 :: string
  librosa :: "UploadFile \<Rightarrow> string option"
  inference :: "string \<Rightarrow> string \<Rightarrow> error + inference_output"
  classifier :: "cell list list \<Rightarrow> error + int list"
  numpy_mean :: "int list \<Rightarrow> rat option"

section \<open>The repository\<close>

definition create_test :: "state \<Rightarrow> Test \<Rightarrow> state" where
  "create_test session test = session\<lparr>tests := tests session @ [test]\<rparr>"

definition create_score :: "state \<Rightarrow> Score \<Rightarrow> state" where
  "create_score session sc = session\<lparr>scores := scores session @ [sc]\<rparr>"

text \<open>\<^verbatim>\<open>session.add\<close> of a user that is already persistent updates its row.\<close>

definition create_update_user :: "state \<Rightarrow> User \<Rightarrow> state" where
  "create_update_user session user =
     (if uid user \<in> set (map uid (users session))
      then session\<lparr>users := map (\<lambda>u. if uid u = uid user then user else u) (users session)\<rparr>
      else session\<lparr>users := users session @ [user]\<rparr>)"

text \<open>\<^verbatim>\<open>session.scalar\<close> gives the first row of the result, or \<^verbatim>\<open>None\<close>.\<close>

definition get_questions_by_date :: "state \<Rightarrow> string \<Rightarrow> Question option" where
  "get_questions_by_date session d = find (\<lambda>q. date q = d) (questions session)"

definition get_result_by_q_num :: "state \<Rightarrow> string \<Rightarrow> User \<Rightarrow> int \<Rightarrow> Test option" where
  "get_result_by_q_num session d user q =
     find (\<lambda>t. createddate t = d \<and> user_id t = uid user \<and> q_num t = q) (tests session)"

section \<open>Strings\<close>

text \<open>\<^verbatim>\<open>s.split(sep)[-1]\<close> and \<^verbatim>\<open>s.split(sep)[0]\<close> for a separator of one character.\<close>

definition split_last :: "char \<Rightarrow> string \<Rightarrow> string" where
  "split_last sep s = rev (takeWhile (\<lambda>c. c \<noteq> sep) (rev s))"

definition split_first :: "char \<Rightarrow> string \<Rightarrow> string" where
  "split_first sep s = takeWhile (\<lambda>c. c \<noteq> sep) s"

text \<open>\<^verbatim>\<open>s[-1]\<close> raises IndexError on the empty string.\<close>

definition last_char :: "string \<Rightarrow> error + char" where
  "last_char s = (case rev s of [] \<Rightarrow> Inl IndexError | c # _ \<Rightarrow> Inr c)"

text \<open>\<^verbatim>\<open>int(c)\<close> for a string of one character (file names are taken to be ASCII).\<close>

definition py_int :: "char \<Rightarrow> error + int" where
  "py_int c =
     (case map_of [(CHR ''0'', 0), (CHR ''1'', 1), (CHR ''2'', 2), (CHR ''3'', 3), (CHR ''4'', 4),
                   (CHR ''5'', 5), (CHR ''6'', 6), (CHR ''7'', 7), (CHR ''8'', 8), (CHR ''9'', 9)] c of
        None \<Rightarrow> Inl ValueError
      | Some n \<Rightarrow> Inr n)"

text \<open>\<^verbatim>\<open>str(n)\<close> for a row id.\<close>

fun str_nat :: "nat \<Rightarrow> string" where
  "str_nat n =
     (if n < 10 then [''0123456789'' ! n]
      else str_nat (n div 10) @ [''0123456789'' ! (n mod 10)])"

declare str_nat.simps [simp del]

section \<open>GET /test\<close>

definition get_question_handler :: "env \<Rightarrow> state \<Rightarrow> error + Question" where
  "get_question_handler e session =
     (case get_questions_by_date session (today e) of
        Some qs \<Rightarrow> Inr qs
      | None \<Rightarrow> Inl (HTTPException 404 ''Question Not Found''))"

section \<open>POST /test\<close>

text \<open>
  The \<^verbatim>\<open>except\<close> branch builds its HTTPException with the keyword \<^verbatim>\<open>status_csode\<close>, which
  the constructor does not have: what leaves the function is a TypeError.
\<close>

definition resampled_path :: "env \<Rightarrow> string \<Rightarrow> char \<Rightarrow> string" where
  "resampled_path e uid_str qn =
     (let name = uuid4 e @ ''_'' @ [qn] @ ''.wav'';
          UPLOAD_DIR = ''./uploads/'' @ uid_str @ ''/''
      in UPLOAD_DIR @ name)"

definition save_and_process_audio ::
    "env \<Rightarrow> UploadFile \<Rightarrow> string \<Rightarrow> char \<Rightarrow> state \<Rightarrow> (error + string) \<times> state" where
  "save_and_process_audio e file uid_str qn s =
     (case librosa e file of
        Some msg \<Rightarrow> (Inl TypeError, s)
      | None \<Rightarrow>
          (Inr (resampled_path e uid_str qn),
           s\<lparr>uploads := uploads s @ [resampled_path e uid_str qn]\<rparr>))"

definition run_inference :: "env \<Rightarrow> string \<Rightarrow> string \<Rightarrow> error + inference_output" where
  "run_inference e p question = inference e p question"

text \<open>The default of the \<^verbatim>\<open>getattr\<close> call, in UTF-8.\<close>

definition question_not_found :: string where
  "question_not_found =
     [CHR 0xEC, CHR 0xA7, CHR 0x88, CHR 0xEB, CHR 0xAC, CHR 0xB8, CHR 0xEC, CHR 0x9D, CHR 0x84,
      CHR 0x20, CHR 0xEC, CHR 0xB0, CHR 0xBE, CHR 0xEC, CHR 0x9D, CHR 0x84, CHR 0x20, CHR 0xEC,
      CHR 0x88, CHR 0x98, CHR 0x20, CHR 0xEC, CHR 0x97, CHR 0x86, CHR 0xEC, CHR 0x9D, CHR 0x8C]"

definition getattr_question :: "Question \<Rightarrow> string \<Rightarrow> string" where
  "getattr_question question_data name =
     (if name = ''q1'' then q1 question_data
      else if name = ''q2'' then q2 question_data
      else if name = ''q3'' then q3 question_data
      else question_not_found)"

text \<open>
  Modelled from the spec: \<^verbatim>\<open>Test.create\<close> of \<^verbatim>\<open>database/orm.py\<close>. A TestResult is
  built from the metric bundle plus user, date, question number and artifact reference.
\<close>

definition Test_create :: "inference_output \<Rightarrow> nat \<Rightarrow> string \<Rightarrow> int \<Rightarrow> string \<Rightarrow> Test" where
  "Test_create out u p n d =
     \<lparr>user_id = u, path = p, q_num = n, createddate = d,
      wpm = out_wpm out, mlr = out_mlr out, pause = out_pause out,
      grammar = out_grammar out, mpr = out_mpr out, coherence = out_coherence out\<rparr>"

text \<open>
  Modelled from the spec: \<^verbatim>\<open>User.addstreak\<close> of \<^verbatim>\<open>database/orm.py\<close>. The streak
  counter is incremented.
\<close>

definition addstreak :: "User \<Rightarrow> User" where
  "addstreak user = user\<lparr>streak := streak user + 1\<rparr>"

text \<open>
  Modelled from the spec: \<^verbatim>\<open>User.done\<close> of \<^verbatim>\<open>database/orm.py\<close>. The done-today flag
  is set.
\<close>

definition user_done :: "User \<Rightarrow> User" where
  "user_done user = user\<lparr>done_today := True\<rparr>"

text \<open>
  \<open>qn\<close> is the handler's \<^verbatim>\<open>q_num\<close>: the last character of the file name's stem, a
  \<^verbatim>\<open>str\<close>, which the handler compares with the \<^verbatim>\<open>int\<close> 3. The steps run in the
  source's order; the first that raises ends the request with the state reached so far.
\<close>

definition upload_test :: "env \<Rightarrow> UploadFile \<Rightarrow> User \<Rightarrow> state \<Rightarrow> (error + Test) \<times> state" where
  "upload_test e file user session =
     (case get_question_handler e session of
        Inl err \<Rightarrow> (Inl err, session)
      | Inr question_data \<Rightarrow>
          (case last_char (split_first (CHR ''.'') (split_last (CHR ''_'') (filename file))) of
             Inl err \<Rightarrow> (Inl err, session)
           | Inr qn \<Rightarrow>
               (case save_and_process_audio e file (str_nat (uid user)) qn session of
                  (Inl err, s1) \<Rightarrow> (Inl err, s1)
                | (Inr file_path, s1) \<Rightarrow>
                    (case run_inference e file_path (getattr_question question_data (CHR ''q'' # [qn])) of
                       Inl err \<Rightarrow> (Inl err, s1)
                     | Inr output \<Rightarrow>
                         (case py_int qn of
                            Inl err \<Rightarrow> (Inl err, s1)
                          | Inr n \<Rightarrow>
                              (let test = Test_create output (uid user) file_path n (now e);
                                   s2 = create_test s1 test;
                                   s3 = (if PyStr [qn] = PyInt 3
                                         then create_update_user s2 (user_done (addstreak user))
                                         else s2)
                               in (Inr test, s3)))))))"

section \<open>POST /get_score\<close>

text \<open>\<^verbatim>\<open>test.grammar["phase_2"]["score"]\<close>: each missing key raises KeyError.\<close>

definition grammar_phase_2_score :: "(string \<times> (string \<times> cell) list) list \<Rightarrow> error + cell" where
  "grammar_phase_2_score g =
     (case map_of g ''phase_2'' of
        None \<Rightarrow> Inl (KeyError ''phase_2'')
      | Some phase \<Rightarrow>
          (case map_of phase ''score'' of
             None \<Rightarrow> Inl (KeyError ''score'')
           | Some v \<Rightarrow> Inr v))"

record DataFrame =
  columns :: "string list"
  rows :: "cell list list"

text \<open>
  The loop over \<^verbatim>\<open>range(1, 4)\<close>, with \<open>data\<close> the list built so far. A question number
  without a row gives \<^verbatim>\<open>None\<close>, and reading \<^verbatim>\<open>None.wpm\<close> raises AttributeError.
\<close>

fun collect_loop :: "state \<Rightarrow> string \<Rightarrow> User \<Rightarrow> int list \<Rightarrow> cell list list \<Rightarrow> error + cell list list" where
  "collect_loop session d user [] data = Inr data"
| "collect_loop session d user (q # qs) data =
     (case get_result_by_q_num session d user q of
        None \<Rightarrow> Inl (AttributeError ''wpm'')
      | Some test \<Rightarrow>
          (case grammar_phase_2_score (grammar test) of
             Inl err \<Rightarrow> Inl err
           | Inr g \<Rightarrow>
               collect_loop session d user qs
                 (data @ [[wpm test, mlr test, pause test, g, mpr test, coherence test]])))"

definition collect_tests_scores :: "state \<Rightarrow> string \<Rightarrow> User \<Rightarrow> error + DataFrame" where
  "collect_tests_scores session d user =
     (let cols = [''WPM'', ''MLR'', ''Pause'', ''Grammar'', ''PR'', ''Coherence'']
      in case collect_loop session d user [1, 2, 3] [] of
           Inl err \<Rightarrow> Inl err
         | Inr data \<Rightarrow> Inr \<lparr>columns = cols, rows = data\<rparr>)"

text \<open>The three coherence tokens (Korean for low, medium, high), in UTF-8.\<close>

definition coherence_low :: string where
  "coherence_low = [CHR 0xEB, CHR 0x82, CHR 0xAE, CHR 0xEC, CHR 0x9D, CHR 0x8C]"

definition coherence_medium :: string where
  "coherence_medium = [CHR 0xEC, CHR 0xA4, CHR 0x91, CHR 0xEA, CHR 0xB0, CHR 0x84]"

definition coherence_high :: string where
  "coherence_high = [CHR 0xEB, CHR 0x86, CHR 0x92, CHR 0xEC, CHR 0x9D, CHR 0x8C]"

definition coherence_mapping :: "(string \<times> rat) list" where
  "coherence_mapping = [(coherence_low, 0), (coherence_medium, 1), (coherence_high, 2)]"

text \<open>
  \<^verbatim>\<open>Series.map(dict)\<close> on one cell: a value that is not a key of the dictionary becomes
  \<^verbatim>\<open>NaN\<close>; nothing is raised.
\<close>

definition series_map :: "(string \<times> rat) list \<Rightarrow> cell \<Rightarrow> cell" where
  "series_map m c =
     (case c of
        Str k \<Rightarrow> (case map_of m k of Some v \<Rightarrow> Num v | None \<Rightarrow> NaN)
      | _ \<Rightarrow> NaN)"

fun index_of :: "'a \<Rightarrow> 'a list \<Rightarrow> nat option" where
  "index_of x [] = None"
| "index_of x (y # ys) = (if x = y then Some 0 else map_option Suc (index_of x ys))"

text \<open>\<^verbatim>\<open>df[name] = df[name].map(m)\<close>: KeyError when the frame has no such column.\<close>

definition map_column :: "string \<Rightarrow> (string \<times> rat) list \<Rightarrow> DataFrame \<Rightarrow> error + DataFrame" where
  "map_column name m df =
     (case index_of name (columns df) of
        None \<Rightarrow> Inl (KeyError name)
      | Some i \<Rightarrow> Inr (df\<lparr>rows := map (\<lambda>r. r[i := series_map m (r ! i)]) (rows df)\<rparr>))"

text \<open>
  Python's \<^verbatim>\<open>round\<close> of a float, which is exact on the float's value and sends a tie to
  the even neighbour, applied to \<^verbatim>\<open>predictions.mean()\<close>. The mean of no predictions is
  \<^verbatim>\<open>NaN\<close>, which \<^verbatim>\<open>round\<close> refuses with ValueError.
\<close>

definition py_round :: "rat \<Rightarrow> int" where
  "py_round x =
     (let f = \<lfloor>x\<rfloor>; d = x - of_int f
      in if d < 1 / 2 then f
         else if 1 / 2 < d then f + 1
         else if even f then f else f + 1)"

definition average_predictions :: "env \<Rightarrow> int list \<Rightarrow> error + int" where
  "average_predictions e predictions =
     (case numpy_mean e predictions of
        None \<Rightarrow> Inl ValueError
      | Some m \<Rightarrow> Inr (py_round m))"

definition class_mapping :: "(string \<times> int) list" where
  "class_mapping = [(''NH'', 0), (''IL'', 1), (''IM'', 2), (''IH'', 3), (''AL'', 4)]"

text \<open>The list comprehension over \<^verbatim>\<open>class_mapping.items()\<close>, and its element \<^verbatim>\<open>[0]\<close>.\<close>

definition class_keys :: "int \<Rightarrow> string list" where
  "class_keys a = [key. (key, v) \<leftarrow> class_mapping, v = a]"

definition predicted_class :: "int \<Rightarrow> error + string" where
  "predicted_class a = (case class_keys a of [] \<Rightarrow> Inl IndexError | key # _ \<Rightarrow> Inr key)"

text \<open>
  Modelled from the spec: \<^verbatim>\<open>Score.create\<close> of \<^verbatim>\<open>database/orm.py\<close>. A Score belongs to
  (user, date) and holds one proficiency label.
\<close>

definition Score_create :: "nat \<Rightarrow> string \<Rightarrow> string \<Rightarrow> Score" where
  "Score_create u d label = \<lparr>score_user_id = u, score_date = d, score = label\<rparr>"

text \<open>Lines 131 to 135 of the handler: the frame the classifier is given.\<close>

definition user_scores :: "state \<Rightarrow> string \<Rightarrow> User \<Rightarrow> error + DataFrame" where
  "user_scores session d user =
     (case collect_tests_scores session d user of
        Inl err \<Rightarrow> Inl err
      | Inr df \<Rightarrow> map_column ''Coherence'' coherence_mapping df)"

definition get_score_handler :: "env \<Rightarrow> User \<Rightarrow> state \<Rightarrow> (error + Score) \<times> state" where
  "get_score_handler e user session =
     (let d = now e
      in case user_scores session d user of
           Inl err \<Rightarrow> (Inl err, session)
         | Inr df \<Rightarrow>
             (case classifier e (rows df) of
                Inl err \<Rightarrow> (Inl err, session)
              | Inr predictions \<Rightarrow>
                  (case average_predictions e predictions of
                     Inl err \<Rightarrow> (Inl err, session)
                   | Inr a \<Rightarrow>
                       (case predicted_class a of
                          Inl err \<Rightarrow> (Inl err, session)
                        | Inr label \<Rightarrow>
                            (let sc = Score_create (uid user) d label
                             in (Inr sc, create_score session sc))))))"

section \<open>The words of the specification\<close>





text \<open>The rows of a session: the TestResults of one user on one date.\<close>

definition session_tests :: "state \<Rightarrow> User \<Rightarrow> string \<Rightarrow> Test list" where
  "session_tests session user d =
     filter (\<lambda>t. createddate t = d \<and> user_id t = uid user) (tests session)"

definition session_scores :: "state \<Rightarrow> User \<Rightarrow> string \<Rightarrow> Score list" where
  "session_scores session user d =
     filter (\<lambda>sc. score_date sc = d \<and> score_user_id sc = uid user) (scores session)"

section \<open>A sample session\<close>

text \<open>
  One user, one published question set, and collaborators that succeed: the inputs the
  general theorems below are instantiated at. The sample inference service answers a
  speaking rate that tells the three prompts apart; the sample classifier answers class 4
  for a row whose coherence cell is \<^verbatim>\<open>NaN\<close> and class 1 for any other row; the
  sample numpy answers the exact mean.
\<close>

definition sample_output :: "string \<Rightarrow> inference_output" where
  "sample_output q =
     \<lparr>out_wpm = Num (if q = ''P1'' then 110 else if q = ''P2'' then 120 else 130),
      out_mlr = Num 7, out_pause = Num (1 / 4),
      out_grammar = [(''phase_1'', [(''score'', Num 1)]), (''phase_2'', [(''score'', Num 80)])],
      out_mpr = Num 3, out_coherence = Str coherence_high\<rparr>"

definition env0 :: env where
  "env0 = \<lparr>today = ''2024-01-01'', now = ''2024-01-01'', uuid4 = ''f00d'',
           librosa = (\<lambda>_. None), inference = (\<lambda>_ q. Inr (sample_output q)),
           classifier = (\<lambda>m. Inr (map (\<lambda>r. if r ! 5 = NaN then 4 else 1) m)),
           numpy_mean = (\<lambda>ps. if ps = [] then None
                               else Some (of_int (sum_list ps) / of_nat (length ps)))\<rparr>"

text \<open>The same, with an inference service that words the coherence of the second answer
  in a token outside the mapping.\<close>

definition env_unknown :: env where
  "env_unknown = env0\<lparr>inference := (\<lambda>_ q.
     Inr (if q = ''P2'' then (sample_output q)\<lparr>out_coherence := Str ''unknown''\<rparr>
          else sample_output q))\<rparr>"

text \<open>Collaborators that fail: an upload that is no audio, an inference service that
  times out on the third prompt and answers the others, a classifier that answers a class
  index outside the table.\<close>

definition env_bad_audio :: env where
  "env_bad_audio = env0\<lparr>librosa := (\<lambda>_. Some ''not a wav file'')\<rparr>"

definition env_timeout :: env where
  "env_timeout = env0\<lparr>inference := (\<lambda>_ q.
     if q = ''P3'' then Inl (External ''timeout'') else Inr (sample_output q))\<rparr>"

definition env_class_9 :: env where
  "env_class_9 = env0\<lparr>classifier := (\<lambda>m. Inr (map (\<lambda>r. 9) m))\<rparr>"




definition user0 :: User where
  "user0 = \<lparr>uid = 7, streak = 0, done_today = False\<rparr>"

definition question0 :: Question where
  "question0 = \<lparr>date = ''2024-01-01'', q1 = ''P1'', q2 = ''P2'', q3 = ''P3''\<rparr>"

definition wav :: "string \<Rightarrow> UploadFile" where
  "wav n = \<lparr>filename = n, content = []\<rparr>"

text \<open>The state with the given TestResults and Scores persisted.\<close>

definition state_of :: "Test list \<Rightarrow> Score list \<Rightarrow> state" where
  "state_of ts scs = \<lparr>questions = [question0], tests = ts, scores = scs, users = [user0],
                      uploads = map path ts\<rparr>"

definition state_unpublished :: state where
  "state_unpublished = \<lparr>questions = [], tests = [], scores = [], users = [user0], uploads = []\<rparr>"

text \<open>The TestResults the sample user's three uploads persist.\<close>

definition answer_1 :: Test where
  "answer_1 = Test_create (sample_output ''P1'') 7 ''./uploads/7/f00d_1.wav'' 1 ''2024-01-01''"

definition answer_2 :: Test where
  "answer_2 = Test_create (sample_output ''P2'') 7 ''./uploads/7/f00d_2.wav'' 2 ''2024-01-01''"

definition answer_3 :: Test where
  "answer_3 = Test_create (sample_output ''P3'') 7 ''./uploads/7/f00d_3.wav'' 3 ''2024-01-01''"

definition answer_2_unknown :: Test where
  "answer_2_unknown = answer_2\<lparr>coherence := Str ''unknown''\<rparr>"

definition answer_2_no_phase :: Test where
  "answer_2_no_phase = answer_2\<lparr>grammar := [(''phase_1'', [(''score'', Num 1)])]\<rparr>"

definition score_IL :: Score where
  "score_IL = Score_create 7 ''2024-01-01'' ''IL''"

definition score_IM :: Score where
  "score_IM = Score_create 7 ''2024-01-01'' ''IM''"

text \<open>The frame the classifier is given for the three sample answers.\<close>

definition frame0 :: DataFrame where
  "frame0 = \<lparr>columns = [''WPM'', ''MLR'', ''Pause'', ''Grammar'', ''PR'', ''Coherence''],
             rows = [[Num 110, Num 7, Num (1 / 4), Num 80, Num 3, Num 2],
                     [Num 120, Num 7, Num (1 / 4), Num 80, Num 3, Num 2],
                     [Num 130, Num 7, Num (1 / 4), Num 80, Num 3, Num 2]]\<rparr>"

lemmas sample_defs = env0_def user0_def question0_def wav_def state_of_def sample_output_def
  answer_1_def answer_2_def answer_3_def Test_create_def

lemmas upload_defs = upload_test_def get_question_handler_def get_questions_by_date_def
  split_last_def split_first_def last_char_def save_and_process_audio_def resampled_path_def
  run_inference_def getattr_question_def py_int_def create_test_def Let_def

lemmas score_defs = get_score_handler_def user_scores_def collect_tests_scores_def
  get_result_by_q_num_def grammar_phase_2_score_def map_column_def series_map_def
  coherence_mapping_def coherence_low_def coherence_medium_def coherence_high_def
  average_predictions_def py_round_def predicted_class_def class_keys_def
  class_mapping_def Score_create_def create_score_def Let_def

section \<open>Auxiliary facts\<close>

subsection \<open>Finding the row of a question number\<close>

lemma find_unique:
  assumes "x \<in> set xs" "P x" "\<And>y. y \<in> set xs \<Longrightarrow> P y \<Longrightarrow> y = x"
  shows "find P xs = Some x"
  using assms
proof (induction xs)
  case Nil
  then show ?case by simp
next
  case (Cons a xs)
  show ?case
  proof (cases "P a")
    case True
    then have "a = x" using Cons.prems(3) by simp
    with True show ?thesis by simp
  next
    case False
    with Cons.prems(1,2) have "x \<in> set xs" by auto
    then have "find P xs = Some x"
      using Cons.prems(2,3) by (intro Cons.IH) simp_all
    with False show ?thesis by simp
  qed
qed

lemma session_tests_mem:
  "t \<in> set (session_tests s u d) \<longleftrightarrow> t \<in> set (tests s) \<and> createddate t = d \<and> user_id t = uid u"
  by (simp add: session_tests_def)

lemma get_result_unique:
  assumes "t \<in> set (session_tests s u d)" "q_num t = q"
    and "\<And>y. y \<in> set (session_tests s u d) \<Longrightarrow> q_num y = q \<Longrightarrow> y = t"
  shows "get_result_by_q_num s d u q = Some t"
  unfolding get_result_by_q_num_def
proof (rule find_unique)
  show "t \<in> set (tests s)"
    using assms(1) by (simp add: session_tests_mem)
  show "createddate t = d \<and> user_id t = uid u \<and> q_num t = q"
    using assms(1,2) by (simp add: session_tests_mem)
  show "y = t" if "y \<in> set (tests s)" "createddate y = d \<and> user_id y = uid u \<and> q_num y = q" for y
    using that by (intro assms(3)) (simp_all add: session_tests_mem)
qed

subsection \<open>The aggregation loop\<close>

lemma collect_loop_found:
  "collect_loop s d u qs data = Inr r \<Longrightarrow> q \<in> set qs \<Longrightarrow> get_result_by_q_num s d u q \<noteq> None"
  by (induction qs arbitrary: data) (auto split: option.splits sum.splits)

lemma grammar_error_kind:
  "grammar_phase_2_score g = Inl err \<Longrightarrow> \<exists>k. err = KeyError k"
  by (auto simp: grammar_phase_2_score_def split: option.splits)

lemma collect_loop_error_kind:
  "collect_loop s d u qs data = Inl err \<Longrightarrow> err = AttributeError ''wpm'' \<or> (\<exists>k. err = KeyError k)"
  by (induction qs arbitrary: data) (auto split: option.splits sum.splits dest: grammar_error_kind)

lemma found_in_session:
  "get_result_by_q_num s d u q = Some t \<Longrightarrow> t \<in> set (session_tests s u d) \<and> q_num t = q"
  by (auto simp: get_result_by_q_num_def session_tests_def find_Some_iff)

lemma three_rows:
  assumes "get_result_by_q_num s d u 1 \<noteq> None" "get_result_by_q_num s d u 2 \<noteq> None"
    "get_result_by_q_num s d u 3 \<noteq> None"
  shows "3 \<le> length (session_tests s u d)"
proof -
  from assms obtain t1 t2 t3 where
    t: "get_result_by_q_num s d u 1 = Some t1" "get_result_by_q_num s d u 2 = Some t2"
       "get_result_by_q_num s d u 3 = Some t3"
    by auto
  then have mem: "{t1, t2, t3} \<subseteq> set (session_tests s u d)"
    and q: "q_num t1 = 1" "q_num t2 = 2" "q_num t3 = 3"
    using found_in_session by blast+
  from q have "t1 \<noteq> t2" "t1 \<noteq> t3" "t2 \<noteq> t3" by auto
  then have "card {t1, t2, t3} = 3" by simp
  moreover have "card {t1, t2, t3} \<le> card (set (session_tests s u d))"
    using mem by (intro card_mono) auto
  moreover have "card (set (session_tests s u d)) \<le> length (session_tests s u d)"
    by (rule card_length)
  ultimately show ?thesis by linarith
qed

lemma collect_incomplete:
  assumes "length (session_tests s u d) < 3"
  shows "\<exists>err. collect_tests_scores s d u = Inl err \<and> (err = AttributeError ''wpm'' \<or> (\<exists>k. err = KeyError k))"
proof (cases "collect_loop s d u [1, 2, 3] []")
  case (Inl err)
  then show ?thesis
    using collect_loop_error_kind [OF Inl] by (simp add: collect_tests_scores_def)
next
  case (Inr r)
  then have "3 \<le> length (session_tests s u d)"
    by (intro three_rows collect_loop_found [OF Inr]) simp_all
  with assms show ?thesis by simp
qed
lemma index_of_Coherence:
  "index_of ''Coherence'' [''WPM'', ''MLR'', ''Pause'', ''Grammar'', ''PR'', ''Coherence''] = Some 5"
  by (simp add: eval_nat_numeral)

lemma collect_loop_shape:
  "collect_loop s d u qs data = Inr r \<Longrightarrow> \<forall>x \<in> set data. length x = 6
    \<Longrightarrow> length r = length data + length qs \<and> (\<forall>x \<in> set r. length x = 6)"
  by (induction qs arbitrary: data) (auto split: option.splits sum.splits)

lemma collect_tests_scores_shape:
  assumes "collect_tests_scores s d u = Inr df"
  shows "columns df = [''WPM'', ''MLR'', ''Pause'', ''Grammar'', ''PR'', ''Coherence'']
       \<and> length (rows df) = 3 \<and> (\<forall>x \<in> set (rows df). length x = 6)"
proof -
  from assms obtain r where r: "collect_loop s d u [1, 2, 3] [] = Inr r"
    and df: "df = \<lparr>columns = [''WPM'', ''MLR'', ''Pause'', ''Grammar'', ''PR'', ''Coherence''], rows = r\<rparr>"
    by (auto simp: collect_tests_scores_def split: sum.splits)
  from collect_loop_shape [OF r] df show ?thesis by simp
qed

lemma user_scores_mapped:
  assumes "collect_tests_scores s d u = Inr df"
  shows "user_scores s d u =
     Inr (df\<lparr>rows := map (\<lambda>r. r[5 := series_map coherence_mapping (r ! 5)]) (rows df)\<rparr>)"
  using collect_tests_scores_shape [OF assms] assms
  by (simp add: user_scores_def map_column_def index_of_Coherence del: index_of.simps)

lemma series_map_coherence:
  "series_map coherence_mapping c =
     (if c = Str coherence_low then Num 0
      else if c = Str coherence_medium then Num 1
      else if c = Str coherence_high then Num 2
      else NaN)"
  by (cases c) (auto simp: series_map_def coherence_mapping_def coherence_low_def coherence_medium_def coherence_high_def)

lemma get_result_scores_upd [simp]:
  "get_result_by_q_num (s\<lparr>scores := x\<rparr>) d u q = get_result_by_q_num s d u q"
  by (simp add: get_result_by_q_num_def)

lemma collect_loop_scores_upd [simp]:
  "collect_loop (s\<lparr>scores := x\<rparr>) d u qs data = collect_loop s d u qs data"
  by (induction qs arbitrary: data) (auto split: option.splits sum.splits)

lemma user_scores_scores_upd [simp]:
  "user_scores (s\<lparr>scores := x\<rparr>) d u = user_scores s d u"
  by (simp add: user_scores_def collect_tests_scores_def del: collect_loop.simps)

subsection \<open>Rounding, and rounding near a number of thirds\<close>














subsection \<open>The sample session, step by step\<close>

lemma str_nat_7: "str_nat 7 = ''7''"
  by (simp add: str_nat.simps)

lemma upload_1:
  "upload_test env0 (wav ''answer_1.wav'') user0 (state_of ts scs) =
     (Inr answer_1, state_of (ts @ [answer_1]) scs)"
  by (simp add: upload_defs sample_defs str_nat_7)

lemma upload_2:
  "upload_test env0 (wav ''answer_2.wav'') user0 (state_of ts scs) =
     (Inr answer_2, state_of (ts @ [answer_2]) scs)"
  by (simp add: upload_defs sample_defs str_nat_7)

lemma upload_3:
  "upload_test env0 (wav ''answer_3.wav'') user0 (state_of ts scs) =
     (Inr answer_3, state_of (ts @ [answer_3]) scs)"
  by (simp add: upload_defs sample_defs str_nat_7)

lemma upload_2_unknown:
  "upload_test env_unknown (wav ''answer_2.wav'') user0 (state_of ts scs) =
     (Inr answer_2_unknown, state_of (ts @ [answer_2_unknown]) scs)"
  by (simp add: upload_defs sample_defs env_unknown_def answer_2_unknown_def str_nat_7)

lemma session_tests_sample:
  "session_tests (state_of [answer_1, answer_2, answer_3] scs) user0 ''2024-01-01'' =
     [answer_1, answer_2, answer_3]"
  "session_tests (state_of [answer_3, answer_1, answer_2] scs) user0 ''2024-01-01'' =
     [answer_3, answer_1, answer_2]"
  "session_tests (state_of [answer_1, answer_2] scs) user0 ''2024-01-01'' = [answer_1, answer_2]"
  "session_tests (state_of [answer_1, answer_1, answer_2] scs) user0 ''2024-01-01'' =
     [answer_1, answer_1, answer_2]"
  "session_tests (state_of [answer_1, answer_1] scs) user0 ''2024-01-01'' = [answer_1, answer_1]"
  by (simp_all add: session_tests_def sample_defs)

lemma get_score_complete:
  "get_score_handler env0 user0 (state_of [answer_1, answer_2, answer_3] scs) =
     (Inr score_IL, state_of [answer_1, answer_2, answer_3] (scs @ [score_IL]))"
  by (simp add: sample_defs score_defs score_IL_def)

lemma get_score_unknown:
  "get_score_handler env0 user0 (state_of [answer_1, answer_2_unknown, answer_3] scs) =
     (Inr score_IM, state_of [answer_1, answer_2_unknown, answer_3] (scs @ [score_IM]))"
  by (simp add: sample_defs score_defs answer_2_unknown_def score_IM_def)

lemma get_score_two:
  "get_score_handler env0 user0 (state_of [answer_1, answer_2] scs) =
     (Inl (AttributeError ''wpm''), state_of [answer_1, answer_2] scs)"
  by (simp add: sample_defs score_defs)

lemma collect_duplicate:
  "collect_tests_scores (state_of [answer_1, answer_1, answer_2] []) ''2024-01-01'' user0 =
     Inl (AttributeError ''wpm'')"
  by (simp add: sample_defs score_defs)

lemma collect_no_phase:
  "collect_tests_scores (state_of [answer_1, answer_2_no_phase, answer_3] []) ''2024-01-01'' user0 =
     Inl (KeyError ''phase_2'')"
  by (simp add: sample_defs score_defs answer_2_no_phase_def)


lemma user_scores_sample:
  "user_scores (state_of [answer_1, answer_2, answer_3] scs) ''2024-01-01'' user0 = Inr frame0"
  by (simp add: sample_defs score_defs frame0_def)

section \<open>The claims\<close>

subsection \<open>C1: when the completion side effects run\<close>

text \<open>
  C1 (amended). The claim is that the completion side effects (streak increment, done-today
  flag, a synchronous run of the scoring pipeline) happen exactly once, on the submission that
  brings the persisted TestResults of (user, date) to three. The handler does not count rows
  and never calls the scoring pipeline, which runs only on a \<^verbatim>\<open>POST /get_score\<close> request.
  What holds for every submission, whatever the persisted count: \<open>upload_test\<close> leaves the
  Score table as it was, and it persists exactly one TestResult when it succeeds and none
  when it fails.
\<close>

theorem upload_test_never_scores:
  "scores (snd (upload_test e file user s)) = scores s \<and>
   (tests (snd (upload_test e file user s)) = tests s \<and> isl (fst (upload_test e file user s))
    \<or> (\<exists>t. fst (upload_test e file user s) = Inr t
           \<and> tests (snd (upload_test e file user s)) = tests s @ [t]))"
  by (auto simp: upload_test_def save_and_process_audio_def create_test_def Let_def
      split: sum.splits option.splits prod.splits)

text \<open>
  At the sample session: the third upload leaves the Score table empty and persists
  \<open>answer_3\<close>.
\<close>

theorem upload_test_never_scores_witness:
  "scores (snd (upload_test env0 (wav ''answer_3.wav'') user0 (state_of [answer_1, answer_2] []))) = []
   \<and> tests (snd (upload_test env0 (wav ''answer_3.wav'') user0 (state_of [answer_1, answer_2] [])))
       = [answer_1, answer_2, answer_3]"
  using upload_test_never_scores
    [of env0 "wav ''answer_3.wav''" user0 "state_of [answer_1, answer_2] []"]
  by (simp add: upload_3) (simp add: state_of_def)

text \<open>
  The claim as stated fails: the sample user submits questions 1, 2 and 3, every upload
  succeeds, the third brings the persisted count to three, and afterwards the user's row is
  what it was (streak 0, not done) and no Score exists.
\<close>

theorem completion_not_triggered:
  "upload_test env0 (wav ''answer_1.wav'') user0 (state_of [] []) = (Inr answer_1, state_of [answer_1] [])
   \<and> upload_test env0 (wav ''answer_2.wav'') user0 (state_of [answer_1] [])
       = (Inr answer_2, state_of [answer_1, answer_2] [])
   \<and> upload_test env0 (wav ''answer_3.wav'') user0 (state_of [answer_1, answer_2] [])
       = (Inr answer_3, state_of [answer_1, answer_2, answer_3] [])
   \<and> length (session_tests (state_of [answer_1, answer_2, answer_3] []) user0 ''2024-01-01'') = 3
   \<and> users (state_of [answer_1, answer_2, answer_3] []) = [\<lparr>uid = 7, streak = 0, done_today = False\<rparr>]
   \<and> scores (state_of [answer_1, answer_2, answer_3] []) = []"
  using upload_1 [of "[]" "[]"] upload_2 [of "[answer_1]" "[]"] upload_3 [of "[answer_1, answer_2]" "[]"]
  by (simp add: session_tests_sample) (simp add: state_of_def user0_def)

subsection \<open>C2: scoring an incomplete session\<close>

text \<open>
  C2 (amended). Running the scoring pipeline on a session with fewer than three persisted
  TestResults (0, 1 or 2 rows for the user and date) always fails and persists nothing: the
  handler returns an exception and the state it was given. The exception is not a dedicated
  IncompleteSession error, which the code does not have: it is the AttributeError of reading
  \<^verbatim>\<open>.wpm\<close> of the missing row (\<^verbatim>\<open>None\<close>), or the KeyError of the grammar lookup of a row
  read before it.
\<close>

theorem get_score_incomplete_fails:
  assumes "length (session_tests s u (now e)) < 3"
  shows "\<exists>err. get_score_handler e u s = (Inl err, s)
              \<and> (err = AttributeError ''wpm'' \<or> (\<exists>k. err = KeyError k))"
  using collect_incomplete [OF assms]
  by (auto simp: get_score_handler_def user_scores_def)

theorem get_score_incomplete_fails_witness:
  "length (session_tests (state_of [answer_1, answer_2] []) user0 (now env0)) < 3
   \<and> (\<exists>err. get_score_handler env0 user0 (state_of [answer_1, answer_2] [])
              = (Inl err, state_of [answer_1, answer_2] []))"
proof -
  have h: "length (session_tests (state_of [answer_1, answer_2] []) user0 (now env0)) < 3"
    by (simp add: env0_def session_tests_sample)
  from get_score_incomplete_fails [OF h] h show ?thesis by blast
qed

text \<open>
  The claim as stated fails on the name of the failure: with two of the three answers
  persisted the handler ends in an AttributeError.
\<close>

theorem incomplete_session_attribute_error:
  "length (session_tests (state_of [answer_1, answer_2] []) user0 ''2024-01-01'') = 2
   \<and> get_score_handler env0 user0 (state_of [answer_1, answer_2] [])
       = (Inl (AttributeError ''wpm''), state_of [answer_1, answer_2] [])"
  by (simp add: session_tests_sample get_score_two)

subsection \<open>C3: a coherence token outside the mapping\<close>

text \<open>
  C3 (amended). The claim is that a coherence token outside the three-level set makes the
  scoring pipeline fail with UnmappedCategory. The mapping step is pandas'
  \<^verbatim>\<open>Series.map\<close> with a dictionary, which raises nothing: for every per-question result
  whose coherence token is outside the set, the coherence cell of its row becomes
  \<^verbatim>\<open>NaN\<close> (none of 0, 1, 2 is substituted), the frame goes to the classifier with that
  cell, and the request succeeds and persists a Score whenever the classifier answers
  predictions whose rounded mean is in the class table.
\<close>

theorem unknown_coherence_is_nan:
  assumes "collect_tests_scores s (now e) u = Inr df"
    and "classifier e
           (map (\<lambda>r. r[5 := (if r ! 5 = Str coherence_low then Num 0
                             else if r ! 5 = Str coherence_medium then Num 1
                             else if r ! 5 = Str coherence_high then Num 2
                             else NaN)]) (rows df)) = Inr ps"
    and "numpy_mean e ps = Some m" and "py_round m \<in> {0, 1, 2, 3, 4}"
  shows "\<exists>sc. get_score_handler e u s = (Inr sc, s\<lparr>scores := scores s @ [sc]\<rparr>)"
proof -
  have "user_scores s (now e) u =
     Inr (df\<lparr>rows := map (\<lambda>r. r[5 := (if r ! 5 = Str coherence_low then Num 0
                             else if r ! 5 = Str coherence_medium then Num 1
                             else if r ! 5 = Str coherence_high then Num 2
                             else NaN)]) (rows df)\<rparr>)"
    by (simp only: user_scores_mapped [OF assms(1)] series_map_coherence)
  moreover obtain l where "predicted_class (py_round m) = Inr l"
    using assms(4) by (auto simp: predicted_class_def class_keys_def class_mapping_def)
  ultimately have "get_score_handler e u s =
      (Inr (Score_create (uid u) (now e) l),
       s\<lparr>scores := scores s @ [Score_create (uid u) (now e) l]\<rparr>)"
    using assms(2,3)
    by (simp add: get_score_handler_def average_predictions_def create_score_def Let_def)
  then show ?thesis ..
qed

text \<open>
  At the sample session with the second answer's coherence worded \<open>unknown\<close>: the
  classifier is given \<^verbatim>\<open>NaN\<close> in the second row and answers 1, 4, 1.
\<close>

theorem unknown_coherence_is_nan_witness:
  "collect_tests_scores (state_of [answer_1, answer_2_unknown, answer_3] []) (now env0) user0
     = Inr (frame0\<lparr>rows := [[Num 110, Num 7, Num (1 / 4), Num 80, Num 3, Str coherence_high],
                            [Num 120, Num 7, Num (1 / 4), Num 80, Num 3, Str ''unknown''],
                            [Num 130, Num 7, Num (1 / 4), Num 80, Num 3, Str coherence_high]]\<rparr>)
   \<and> (\<exists>sc. get_score_handler env0 user0 (state_of [answer_1, answer_2_unknown, answer_3] [])
         = (Inr sc, (state_of [answer_1, answer_2_unknown, answer_3] [])\<lparr>scores := [sc]\<rparr>))"
proof -
  let ?df = "frame0\<lparr>rows := [[Num 110, Num 7, Num (1 / 4), Num 80, Num 3, Str coherence_high],
                            [Num 120, Num 7, Num (1 / 4), Num 80, Num 3, Str ''unknown''],
                            [Num 130, Num 7, Num (1 / 4), Num 80, Num 3, Str coherence_high]]\<rparr>"
  have c: "collect_tests_scores (state_of [answer_1, answer_2_unknown, answer_3] []) (now env0) user0
     = Inr ?df"
    by (simp add: sample_defs score_defs answer_2_unknown_def frame0_def)
  have p: "classifier env0
           (map (\<lambda>r. r[5 := (if r ! 5 = Str coherence_low then Num 0
                             else if r ! 5 = Str coherence_medium then Num 1
                             else if r ! 5 = Str coherence_high then Num 2
                             else NaN)]) (rows ?df)) = Inr [1, 4, 1]"
    by (simp add: env0_def frame0_def coherence_low_def coherence_medium_def coherence_high_def)
  have n: "numpy_mean env0 [1, 4, 1] = Some 2"
    by (simp add: env0_def)
  have r: "py_round 2 \<in> {0, 1, 2, 3, 4}"
    by (simp add: py_round_def)
  from unknown_coherence_is_nan [OF c p n r] c show ?thesis
    by (simp add: state_of_def)
qed

text \<open>
  The claim as stated fails: the inference service words the second answer's coherence
  \<open>unknown\<close>, the answer is persisted with that token, and the scoring request does not
  fail: it returns the label IM, the rounded mean of the classes 1, 4, 1 (class 4 being the
  sample classifier's answer to a \<^verbatim>\<open>NaN\<close> cell), and persists it.
\<close>

theorem unknown_coherence_scored:
  "upload_test env_unknown (wav ''answer_2.wav'') user0 (state_of [answer_1] [])
     = (Inr answer_2_unknown, state_of [answer_1, answer_2_unknown] [])
   \<and> coherence answer_2_unknown = Str ''unknown''
   \<and> get_score_handler env0 user0 (state_of [answer_1, answer_2_unknown, answer_3] [])
       = (Inr score_IM, state_of [answer_1, answer_2_unknown, answer_3] [score_IM])"
  using upload_2_unknown [of "[answer_1]" "[]"]
    get_score_unknown [of "[]"]
  by (simp add: answer_2_unknown_def)

subsection \<open>C4: the rounding law and the class-label table\<close>




subsection \<open>C5: the feature matrix\<close>

text \<open>
  C5 (amended). For every user and date whose persisted TestResults are exactly three, one
  for each question number 1, 2 and 3, each holding \<^verbatim>\<open>grammar["phase_2"]["score"]\<close>, the
  feature aggregation returns a matrix whose rows follow the question number ascending
  (1, 2, 3) and whose columns are, in this order, speaking rate, mean length of run, pause
  ratio, grammar phase_2 score, pronunciation metric, coherence level. The hypothesis speaks
  of the session's rows as a multiset, so the matrix is the same in whatever order the
  results were submitted and stored.
\<close>

theorem collect_tests_scores_matrix:
  assumes rows: "mset (session_tests s u d) = {#ta, tb, tc#}"
    and q: "q_num ta = 1" "q_num tb = 2" "q_num tc = 3"
    and g: "grammar_phase_2_score (grammar ta) = Inr ga"
      "grammar_phase_2_score (grammar tb) = Inr gb"
      "grammar_phase_2_score (grammar tc) = Inr gc"
  shows "collect_tests_scores s d u =
     Inr \<lparr>columns = [''WPM'', ''MLR'', ''Pause'', ''Grammar'', ''PR'', ''Coherence''],
          rows = [[wpm ta, mlr ta, pause ta, ga, mpr ta, coherence ta],
                  [wpm tb, mlr tb, pause tb, gb, mpr tb, coherence tb],
                  [wpm tc, mlr tc, pause tc, gc, mpr tc, coherence tc]]\<rparr>"
proof -
  have "set (session_tests s u d) = set_mset {#ta, tb, tc#}"
    by (simp only: rows [symmetric] set_mset_mset)
  then have A: "set (session_tests s u d) = {ta, tb, tc}"
    by simp
  have ra: "get_result_by_q_num s d u 1 = Some ta"
    by (rule get_result_unique) (use q in \<open>auto simp: A\<close>)
  have rb: "get_result_by_q_num s d u 2 = Some tb"
    by (rule get_result_unique) (use q in \<open>auto simp: A\<close>)
  have rc: "get_result_by_q_num s d u 3 = Some tc"
    by (rule get_result_unique) (use q in \<open>auto simp: A\<close>)
  show ?thesis
    by (simp add: collect_tests_scores_def ra rb rc g)
qed

text \<open>
  At the sample session with the answers stored in the order 3, 1, 2: the rows of the matrix
  are those of questions 1, 2, 3 (speaking rates 110, 120, 130).
\<close>

theorem collect_tests_scores_matrix_witness:
  "mset (session_tests (state_of [answer_3, answer_1, answer_2] []) user0 ''2024-01-01'')
     = {#answer_1, answer_2, answer_3#}
   \<and> q_num answer_1 = 1 \<and> q_num answer_2 = 2 \<and> q_num answer_3 = 3
   \<and> grammar_phase_2_score (grammar answer_1) = Inr (Num 80)
   \<and> grammar_phase_2_score (grammar answer_2) = Inr (Num 80)
   \<and> grammar_phase_2_score (grammar answer_3) = Inr (Num 80)
   \<and> collect_tests_scores (state_of [answer_3, answer_1, answer_2] []) ''2024-01-01'' user0
       = Inr \<lparr>columns = [''WPM'', ''MLR'', ''Pause'', ''Grammar'', ''PR'', ''Coherence''],
              rows = [[Num 110, Num 7, Num (1 / 4), Num 80, Num 3, Str coherence_high],
                      [Num 120, Num 7, Num (1 / 4), Num 80, Num 3, Str coherence_high],
                      [Num 130, Num 7, Num (1 / 4), Num 80, Num 3, Str coherence_high]]\<rparr>"
proof -
  have m: "mset (session_tests (state_of [answer_3, answer_1, answer_2] []) user0 ''2024-01-01'')
     = {#answer_1, answer_2, answer_3#}"
    by (simp add: session_tests_sample)
  have q: "q_num answer_1 = 1" "q_num answer_2 = 2" "q_num answer_3 = 3"
    by (simp_all add: sample_defs)
  have g: "grammar_phase_2_score (grammar answer_1) = Inr (Num 80)"
    "grammar_phase_2_score (grammar answer_2) = Inr (Num 80)"
    "grammar_phase_2_score (grammar answer_3) = Inr (Num 80)"
    by (simp_all add: sample_defs grammar_phase_2_score_def)
  from collect_tests_scores_matrix [OF m q g] m q g show ?thesis
    by (simp add: sample_defs)
qed

text \<open>
  The claim as stated fails: three TestResults are persisted for the user and date, two for
  question 1 and one for question 2, and the aggregation returns no matrix but the
  AttributeError of the missing question 3. It fails as well with one TestResult per
  question when the second holds no \<^verbatim>\<open>phase_2\<close> entry in its grammar: the
  aggregation ends in a KeyError.
\<close>

theorem three_rows_without_matrix:
  "length (session_tests (state_of [answer_1, answer_1, answer_2] []) user0 ''2024-01-01'') = 3
   \<and> collect_tests_scores (state_of [answer_1, answer_1, answer_2] []) ''2024-01-01'' user0
       = Inl (AttributeError ''wpm'')
   \<and> map q_num (session_tests (state_of [answer_1, answer_2_no_phase, answer_3] []) user0 ''2024-01-01'')
       = [1, 2, 3]
   \<and> collect_tests_scores (state_of [answer_1, answer_2_no_phase, answer_3] []) ''2024-01-01'' user0
       = Inl (KeyError ''phase_2'')"
  by (simp add: session_tests_sample collect_duplicate collect_no_phase)
    (simp add: session_tests_def sample_defs answer_2_no_phase_def)

subsection \<open>C6: a second submission for the same question\<close>

text \<open>
  C6 (amended). The claim is that a submission for a (user, date, q_num) that already has a
  TestResult fails with DuplicateSubmission. The handler never looks for an existing row:
  whenever today's question is published, the file name ends in a digit, and transcoding and
  inference succeed, the submission succeeds and appends one more TestResult for that user,
  today's date and that q_num, whatever rows exist already; so several TestResults can
  exist for one (user, date, q_num).
\<close>

theorem upload_test_accepts_duplicate:
  assumes "get_question_handler e s = Inr qd"
    and "last_char (split_first (CHR ''.'') (split_last (CHR ''_'') (filename file))) = Inr qn"
    and "py_int qn = Inr n"
    and "librosa e file = None"
    and "inference e (resampled_path e (str_nat (uid user)) qn)
           (getattr_question qd (CHR ''q'' # [qn])) = Inr out"
  shows "\<exists>t. fst (upload_test e file user s) = Inr t
       \<and> tests (snd (upload_test e file user s)) = tests s @ [t]
       \<and> user_id t = uid user \<and> createddate t = now e \<and> q_num t = n"
  using assms
  by (auto simp: upload_test_def save_and_process_audio_def run_inference_def Let_def
      create_test_def Test_create_def split: sum.splits option.splits prod.splits)

theorem upload_test_accepts_duplicate_witness:
  "get_question_handler env0 (state_of [answer_1] []) = Inr question0
   \<and> last_char (split_first (CHR ''.'') (split_last (CHR ''_'') (filename (wav ''answer_1.wav''))))
       = Inr (CHR ''1'')
   \<and> py_int (CHR ''1'') = Inr 1
   \<and> librosa env0 (wav ''answer_1.wav'') = None
   \<and> inference env0 (resampled_path env0 (str_nat (uid user0)) (CHR ''1''))
        (getattr_question question0 (CHR ''q'' # [CHR ''1''])) = Inr (sample_output ''P1'')
   \<and> user_id answer_1 = uid user0 \<and> createddate answer_1 = now env0 \<and> q_num answer_1 = 1
   \<and> (\<exists>t. fst (upload_test env0 (wav ''answer_1.wav'') user0 (state_of [answer_1] [])) = Inr t
         \<and> tests (snd (upload_test env0 (wav ''answer_1.wav'') user0 (state_of [answer_1] [])))
             = [answer_1, t]
         \<and> user_id t = 7 \<and> createddate t = ''2024-01-01'' \<and> q_num t = 1)"
proof -
  have a: "get_question_handler env0 (state_of [answer_1] []) = Inr question0"
    by (simp add: get_question_handler_def get_questions_by_date_def sample_defs)
  have b: "last_char (split_first (CHR ''.'') (split_last (CHR ''_'') (filename (wav ''answer_1.wav''))))
       = Inr (CHR ''1'')"
    by (simp add: last_char_def split_first_def split_last_def wav_def)
  have c: "py_int (CHR ''1'') = Inr 1"
    by (simp add: py_int_def)
  have d: "librosa env0 (wav ''answer_1.wav'') = None"
    by (simp add: env0_def)
  have i: "inference env0 (resampled_path env0 (str_nat (uid user0)) (CHR ''1''))
        (getattr_question question0 (CHR ''q'' # [CHR ''1''])) = Inr (sample_output ''P1'')"
    by (simp add: env0_def getattr_question_def question0_def)
  have k: "user_id answer_1 = uid user0 \<and> createddate answer_1 = now env0 \<and> q_num answer_1 = 1"
    by (simp add: sample_defs)
  from upload_test_accepts_duplicate [OF a b c d i] a b c d i k show ?thesis
    by (simp add: state_of_def env0_def user0_def)
qed

text \<open>
  The claim as stated fails: the sample user submits question 1 twice; the second
  submission succeeds and two TestResults for question 1 are persisted.
\<close>

theorem duplicate_submission_persisted:
  "upload_test env0 (wav ''answer_1.wav'') user0 (state_of [answer_1] [])
     = (Inr answer_1, state_of [answer_1, answer_1] [])
   \<and> map q_num (session_tests (state_of [answer_1, answer_1] []) user0 ''2024-01-01'') = [1, 1]"
  using upload_1 [of "[answer_1]" "[]"]
  by (simp add: session_tests_sample) (simp add: sample_defs)

subsection \<open>C7: a second scoring request\<close>

text \<open>
  C7 (amended). The claim is that at most one Score row ever exists per (user, date). The
  handler never looks for an existing Score: every successful scoring request appends one
  Score row for the user and today's date, and the same request on the state it leaves
  succeeds again with the same Score and appends a second row.
\<close>

theorem get_score_twice:
  assumes "fst (get_score_handler e u s) = Inr sc"
  shows "get_score_handler e u s = (Inr sc, s\<lparr>scores := scores s @ [sc]\<rparr>)
       \<and> score_user_id sc = uid u \<and> score_date sc = now e
       \<and> get_score_handler e u (s\<lparr>scores := scores s @ [sc]\<rparr>)
           = (Inr sc, s\<lparr>scores := scores s @ [sc, sc]\<rparr>)"
  using assms
  by (auto simp: get_score_handler_def Let_def create_score_def Score_create_def
      split: sum.splits)

theorem get_score_twice_witness:
  "fst (get_score_handler env0 user0 (state_of [answer_1, answer_2, answer_3] [])) = Inr score_IL
   \<and> get_score_handler env0 user0 ((state_of [answer_1, answer_2, answer_3] [])\<lparr>scores := [score_IL]\<rparr>)
       = (Inr score_IL, (state_of [answer_1, answer_2, answer_3] [])\<lparr>scores := [score_IL, score_IL]\<rparr>)"
proof -
  have h: "fst (get_score_handler env0 user0 (state_of [answer_1, answer_2, answer_3] [])) = Inr score_IL"
    by (simp add: get_score_complete)
  from get_score_twice [OF h] h show ?thesis
    by (simp add: state_of_def)
qed

text \<open>
  The claim as stated fails: after the sample session is scored once, a second scoring
  request succeeds and leaves two Score rows for the same user and date.
\<close>

theorem second_score_row:
  "get_score_handler env0 user0 (state_of [answer_1, answer_2, answer_3] [score_IL])
     = (Inr score_IL, state_of [answer_1, answer_2, answer_3] [score_IL, score_IL])
   \<and> length (session_scores (state_of [answer_1, answer_2, answer_3] [score_IL, score_IL])
        user0 ''2024-01-01'') = 2"
  using get_score_complete [of "[score_IL]"]
  by (simp add: session_scores_def sample_defs score_IL_def Score_create_def)

subsection \<open>C8: a submission whose transcoding or inference fails\<close>

text \<open>
  C8. For every submission in which audio transcoding fails, or in which the inference call
  the submission makes (for its resampled file and its prompt) fails or times out, the
  handler ends in an exception, no TestResult is persisted and no side effect occurs: the
  users (streak and done-today flag) and the Score table are unchanged. Persistence is the
  handler's step after transcoding and inference. (The resampled file that transcoding wrote
  stays under \<^verbatim>\<open>./uploads\<close> when the inference call fails after it; the claim's side
  effects are those on the database.)
\<close>

theorem upload_test_failure_persists_nothing:
  assumes "librosa e file \<noteq> None
     \<or> (\<exists>qd qn err. get_question_handler e s = Inr qd
           \<and> last_char (split_first (CHR ''.'') (split_last (CHR ''_'') (filename file))) = Inr qn
           \<and> inference e (resampled_path e (str_nat (uid user)) qn)
                 (getattr_question qd (CHR ''q'' # [qn])) = Inl err)"
  shows "(\<exists>err. fst (upload_test e file user s) = Inl err)
       \<and> tests (snd (upload_test e file user s)) = tests s
       \<and> users (snd (upload_test e file user s)) = users s
       \<and> scores (snd (upload_test e file user s)) = scores s"
proof (cases "librosa e file")
  case (Some msg)
  then show ?thesis
    by (simp add: upload_test_def save_and_process_audio_def split: sum.splits)
next
  case None
  with assms obtain qd qn err where q: "get_question_handler e s = Inr qd"
    and c: "last_char (split_first (CHR ''.'') (split_last (CHR ''_'') (filename file))) = Inr qn"
    and i: "inference e (resampled_path e (str_nat (uid user)) qn)
              (getattr_question qd (CHR ''q'' # [qn])) = Inl err"
    by auto
  show ?thesis
    by (simp add: upload_test_def save_and_process_audio_def run_inference_def None q c i)
qed

text \<open>
  At the sample session's third upload, once with an upload that is no audio and once with
  an inference service that times out on the third prompt only.
\<close>

theorem upload_test_failure_persists_nothing_witness:
  "librosa env_bad_audio (wav ''answer_3.wav'') \<noteq> None
   \<and> fst (upload_test env_bad_audio (wav ''answer_3.wav'') user0 (state_of [answer_1, answer_2] []))
       = Inl TypeError
   \<and> tests (snd (upload_test env_bad_audio (wav ''answer_3.wav'') user0 (state_of [answer_1, answer_2] [])))
       = [answer_1, answer_2]
   \<and> users (snd (upload_test env_bad_audio (wav ''answer_3.wav'') user0 (state_of [answer_1, answer_2] [])))
       = [user0]
   \<and> librosa env_timeout (wav ''answer_3.wav'') = None
   \<and> get_question_handler env_timeout (state_of [answer_1, answer_2] []) = Inr question0
   \<and> last_char (split_first (CHR ''.'') (split_last (CHR ''_'') (filename (wav ''answer_3.wav''))))
       = Inr (CHR ''3'')
   \<and> inference env_timeout (resampled_path env_timeout (str_nat (uid user0)) (CHR ''3''))
        (getattr_question question0 (CHR ''q'' # [CHR ''3''])) = Inl (External ''timeout'')
   \<and> inference env_timeout (resampled_path env_timeout (str_nat (uid user0)) (CHR ''1''))
        (getattr_question question0 (CHR ''q'' # [CHR ''1''])) = Inr (sample_output ''P1'')
   \<and> fst (upload_test env_timeout (wav ''answer_3.wav'') user0 (state_of [answer_1, answer_2] []))
       = Inl (External ''timeout'')
   \<and> tests (snd (upload_test env_timeout (wav ''answer_3.wav'') user0 (state_of [answer_1, answer_2] [])))
       = [answer_1, answer_2]
   \<and> users (snd (upload_test env_timeout (wav ''answer_3.wav'') user0 (state_of [answer_1, answer_2] [])))
       = [user0]"
proof -
  have a: "librosa env_bad_audio (wav ''answer_3.wav'') \<noteq> None"
    by (simp add: env_bad_audio_def)
  have n: "librosa env_timeout (wav ''answer_3.wav'') = None"
    by (simp add: env_timeout_def env0_def)
  have q: "get_question_handler env_timeout (state_of [answer_1, answer_2] []) = Inr question0"
    by (simp add: get_question_handler_def get_questions_by_date_def env_timeout_def sample_defs)
  have c: "last_char (split_first (CHR ''.'') (split_last (CHR ''_'') (filename (wav ''answer_3.wav''))))
       = Inr (CHR ''3'')"
    by (simp add: last_char_def split_first_def split_last_def wav_def)
  have i: "inference env_timeout (resampled_path env_timeout (str_nat (uid user0)) (CHR ''3''))
        (getattr_question question0 (CHR ''q'' # [CHR ''3''])) = Inl (External ''timeout'')"
    by (simp add: env_timeout_def getattr_question_def question0_def)
  have i1: "inference env_timeout (resampled_path env_timeout (str_nat (uid user0)) (CHR ''1''))
        (getattr_question question0 (CHR ''q'' # [CHR ''1''])) = Inr (sample_output ''P1'')"
    by (simp add: env_timeout_def getattr_question_def question0_def)
  have b: "\<exists>qd qn err. get_question_handler env_timeout (state_of [answer_1, answer_2] []) = Inr qd
      \<and> last_char (split_first (CHR ''.'') (split_last (CHR ''_'') (filename (wav ''answer_3.wav''))))
          = Inr qn
      \<and> inference env_timeout (resampled_path env_timeout (str_nat (uid user0)) qn)
            (getattr_question qd (CHR ''q'' # [qn])) = Inl err"
    using q c i by blast
  have t: "fst (upload_test env_bad_audio (wav ''answer_3.wav'') user0 (state_of [answer_1, answer_2] []))
       = Inl TypeError"
    by (simp add: upload_defs sample_defs env_bad_audio_def)
  have d: "fst (upload_test env_timeout (wav ''answer_3.wav'') user0 (state_of [answer_1, answer_2] []))
       = Inl (External ''timeout'')"
    by (simp add: upload_defs sample_defs env_timeout_def str_nat_7)
  from upload_test_failure_persists_nothing
      [of env_bad_audio "wav ''answer_3.wav''" "state_of [answer_1, answer_2] []" user0]
    upload_test_failure_persists_nothing
      [of env_timeout "wav ''answer_3.wav''" "state_of [answer_1, answer_2] []" user0]
    a b n q c i i1 t d
  show ?thesis
    by (simp add: state_of_def)
qed

subsection \<open>C9: today's question\<close>

text \<open>
  C9. \<^verbatim>\<open>GET /test\<close> returns today's Question when one is published for today's date (a
  Question of the table whose date is today's), and fails with the 404 error carrying the
  message \<open>Question Not Found\<close> when no Question exists for today's date.
\<close>

theorem get_question_handler_today:
  "((\<exists>q \<in> set (questions s). date q = today e) \<longrightarrow>
      (\<exists>q. get_question_handler e s = Inr q \<and> q \<in> set (questions s) \<and> date q = today e))
   \<and> ((\<forall>q \<in> set (questions s). date q \<noteq> today e) \<longrightarrow>
      get_question_handler e s = Inl (HTTPException 404 ''Question Not Found''))"
  by (auto simp: get_question_handler_def get_questions_by_date_def find_None_iff find_Some_iff
      split: option.splits)

theorem get_question_handler_today_witness:
  "questions (state_of [] []) = [question0] \<and> date question0 = today env0
   \<and> get_question_handler env0 (state_of [] []) = Inr question0
   \<and> questions state_unpublished = []
   \<and> get_question_handler env0 state_unpublished = Inl (HTTPException 404 ''Question Not Found'')"
proof -
  have a: "questions (state_of [] []) = [question0]" "date question0 = today env0"
    "questions state_unpublished = []"
    by (simp_all add: sample_defs state_unpublished_def)
  from get_question_handler_today [of "state_of [] []" env0]
    get_question_handler_today [of state_unpublished env0] a
  show ?thesis
    by simp
qed

subsection \<open>C10: the label lookup is partial\<close>

text \<open>
  C10. In the scoring handler the lookup from the rounded mean prediction back to a label is
  partial: for a rounded mean in 0..4 the list comprehension holds exactly one label, one
  of NH, IL, IM, IH, AL, and that label is the result; for any other rounded mean the list
  is empty, indexing it raises IndexError, and the request fails with the state unchanged,
  so before any Score is persisted.
\<close>

theorem predicted_class_partial:
  "(a \<in> {0, 1, 2, 3, 4} \<longrightarrow>
      (\<exists>l \<in> {''NH'', ''IL'', ''IM'', ''IH'', ''AL''}. class_keys a = [l] \<and> predicted_class a = Inr l))
   \<and> (a \<notin> {0, 1, 2, 3, 4} \<longrightarrow> class_keys a = [] \<and> predicted_class a = Inl IndexError)
   \<and> (user_scores s (now e) u = Inr df \<and> classifier e (rows df) = Inr ps
        \<and> numpy_mean e ps = Some m \<and> py_round m \<notin> {0, 1, 2, 3, 4}
      \<longrightarrow> get_score_handler e u s = (Inl IndexError, s))"
  by (auto simp: predicted_class_def class_keys_def class_mapping_def get_score_handler_def
      average_predictions_def)

text \<open>
  At the class index 2, at the class index 9, and at the sample session with a classifier
  that answers class 9 for every row.
\<close>

theorem predicted_class_partial_witness:
  "(2 :: int) \<in> {0, 1, 2, 3, 4} \<and> class_keys 2 = [''IM''] \<and> predicted_class 2 = Inr ''IM''
   \<and> (9 :: int) \<notin> {0, 1, 2, 3, 4} \<and> class_keys 9 = [] \<and> predicted_class 9 = Inl IndexError
   \<and> user_scores (state_of [answer_1, answer_2, answer_3] []) (now env_class_9) user0 = Inr frame0
   \<and> classifier env_class_9 (rows frame0) = Inr [9, 9, 9]
   \<and> numpy_mean env_class_9 [9, 9, 9] = Some 9
   \<and> py_round 9 \<notin> {0, 1, 2, 3, 4}
   \<and> get_score_handler env_class_9 user0 (state_of [answer_1, answer_2, answer_3] [])
       = (Inl IndexError, state_of [answer_1, answer_2, answer_3] [])"
proof -
  have a: "user_scores (state_of [answer_1, answer_2, answer_3] []) (now env_class_9) user0 = Inr frame0"
    using user_scores_sample [of "[]"] by (simp add: env_class_9_def env0_def)
  have b: "classifier env_class_9 (rows frame0) = Inr [9, 9, 9]"
    by (simp add: env_class_9_def env0_def frame0_def)
  have n: "numpy_mean env_class_9 [9, 9, 9] = Some 9"
    by (simp add: env_class_9_def env0_def)
  have c: "py_round 9 \<notin> {0, 1, 2, 3, 4}"
    by (simp add: py_round_def)
  have d: "class_keys 2 = [''IM'']"
    by (simp add: class_keys_def class_mapping_def)
  from predicted_class_partial [of 2]
    predicted_class_partial [of 9 "state_of [answer_1, answer_2, answer_3] []" env_class_9 user0
      frame0 "[9, 9, 9]" 9]
    a b n c d
  show ?thesis
    by simp
qed

end
